theory Spec2Isabelle
  imports Main "HOL-Library.Word"
begin

section \<open>JavaScript values used by the client\<close>

subsection \<open>Strings\<close>

text \<open>
  A JavaScript string is a sequence of 16-bit UTF-16 code units, and \<open>length\<close>,
  \<open>endsWith\<close>, \<open>trim\<close> and \<open>===\<close> all work on code units. \<open>lit\<close> writes an ASCII
  literal of the source as such a sequence.
\<close>

type_synonym jsstring = "16 word list"

definition lit :: "string \<Rightarrow> jsstring" where
  "lit s = map of_char s"

text \<open>
  \<open>String.prototype.toLowerCase\<close>. Inside ASCII it maps \<open>A\<close>..\<open>Z\<close> to \<open>a\<close>..\<open>z\<close>.
  The Unicode case table of the runtime outside ASCII is not part of the repository
  and is left out: those code units stay as they are. No code point outside ASCII
  lower-cases to \<open>.\<close>, \<open>p\<close>, \<open>d\<close> or \<open>f\<close>, so the test of the upload handler has the
  same value either way.
\<close>

definition toLowerCaseUnit :: "16 word \<Rightarrow> 16 word" where
  "toLowerCaseUnit c = (if 0x41 \<le> c \<and> c \<le> 0x5A then c + 0x20 else c)"

definition toLowerCase :: "jsstring \<Rightarrow> jsstring" where
  "toLowerCase s = map toLowerCaseUnit s"

text \<open>\<open>String.prototype.endsWith\<close> with the default end position.\<close>

definition endsWith :: "jsstring \<Rightarrow> jsstring \<Rightarrow> bool" where
  "endsWith s searchString =
     (length searchString \<le> length s \<and>
      drop (length s - length searchString) s = searchString)"

text \<open>
  \<open>String.prototype.trim\<close> strips ECMAScript white space and line terminators
  (TAB, LF, VT, FF, CR, SP, NBSP, the other space separators and the BOM) from both ends.
\<close>

definition isWhiteSpace :: "16 word \<Rightarrow> bool" where
  "isWhiteSpace c =
     (c \<in> set [0x9, 0xA, 0xB, 0xC, 0xD, 0x20, 0xA0, 0x1680, 0x2028, 0x2029,
                0x202F, 0x205F, 0x3000, 0xFEFF]
      \<or> (0x2000 \<le> c \<and> c \<le> 0x200A))"

definition trim :: "jsstring \<Rightarrow> jsstring" where
  "trim s = rev (dropWhile isWhiteSpace (rev (dropWhile isWhiteSpace s)))"

fun joinWith :: "jsstring \<Rightarrow> jsstring list \<Rightarrow> jsstring" where
  "joinWith sep [] = []"
| "joinWith sep [x] = x"
| "joinWith sep (x # y # ys) = x @ sep @ joinWith sep (y # ys)"

subsection \<open>Parsed JSON and thrown values\<close>

text \<open>
  What \<open>response.json()\<close> resolves to. Numbers are the integers (identifiers and
  counts); fractional numbers are not modelled. An object is the list of its
  properties, and the first entry of a key is the one that counts.
\<close>

datatype json =
    JNull
  | JBool bool
  | JNum int
  | JStr jsstring
  | JArr "json list"
  | JObj "(jsstring \<times> json) list"

text \<open>
  A thrown value: an \<open>Error\<close> instance with its \<open>message\<close>, or anything else
  (\<open>err instanceof Error\<close> is false).
\<close>

datatype thrown = Error (message: jsstring) | NotAnError

text \<open>JavaScript truthiness of a property value (\<open>None\<close> is \<open>undefined\<close>).\<close>

fun truthy :: "json option \<Rightarrow> bool" where
  "truthy None = False"
| "truthy (Some JNull) = False"
| "truthy (Some (JBool b)) = b"
| "truthy (Some (JNum n)) = (n \<noteq> 0)"
| "truthy (Some (JStr s)) = (s \<noteq> [])"
| "truthy (Some (JArr xs)) = True"
| "truthy (Some (JObj kvs)) = True"

text \<open>\<open>a || b\<close>\<close>

definition logicalOr :: "json option \<Rightarrow> json \<Rightarrow> json" where
  "logicalOr a b = (case a of Some v \<Rightarrow> if truthy a then v else b | None \<Rightarrow> b)"

fun digits :: "nat \<Rightarrow> jsstring" where
  "digits n =
     (if n < 10 then [0x30 + of_nat n]
      else digits (n div 10) @ [0x30 + of_nat (n mod 10)])"

declare digits.simps [simp del]

definition numberToString :: "int \<Rightarrow> jsstring" where
  "numberToString n = (if n < 0 then lit ''-'' @ digits (nat (- n)) else digits (nat n))"

text \<open>\<open>ToString\<close>, which \<open>new Error(v)\<close> applies to its argument to get the message.\<close>

fun toString :: "json \<Rightarrow> jsstring" where
  "toString JNull = lit ''null''"
| "toString (JBool b) = (if b then lit ''true'' else lit ''false'')"
| "toString (JNum n) = numberToString n"
| "toString (JStr s) = s"
| "toString (JArr xs) =
     joinWith (lit '','') (map (\<lambda>x. case x of JNull \<Rightarrow> [] | _ \<Rightarrow> toString x) xs)"
| "toString (JObj kvs) = lit ''[object Object]''"

text \<open>
  The message of the \<open>TypeError\<close> for reading a property of \<open>null\<close>. The wording
  belongs to the engine; this is V8's.
\<close>

definition nullPropertyMessage :: jsstring where
  "nullPropertyMessage = lit ''Cannot read properties of null (reading 'error')''"

text \<open>
  \<open>error.error\<close> on a parsed body: the property of an object, \<open>undefined\<close> on a
  primitive or an array, a \<open>TypeError\<close> on \<open>null\<close>.
\<close>

definition errorField :: "json \<Rightarrow> thrown + json option" where
  "errorField v =
     (case v of
        JNull \<Rightarrow> Inl (Error nullPropertyMessage)
      | JObj kvs \<Rightarrow> Inr (map_of kvs (lit ''error''))
      | _ \<Rightarrow> Inr None)"

section \<open>services/api.ts\<close>

definition API_BASE_URL :: jsstring where
  "API_BASE_URL = lit ''/api''"

text \<open>
  The interfaces of the source as records. \<open>UploadResponse\<close> and \<open>Document\<close> share
  field names, so their fields carry the prefixes \<open>ur_\<close> and \<open>doc_\<close>; the optional
  \<open>error\<close> of \<open>AnalyzeResponse\<close> is \<open>ar_error\<close>, and the \<open>method\<close> of a request is
  \<open>method'\<close>.
\<close>

datatype processing_status = success | warning

record UploadResponse =
  ur_id :: int
  ur_title :: jsstring
  ur_file :: jsstring
  ur_file_url :: jsstring
  ur_uploaded_at :: jsstring
  ur_processing_status :: processing_status
  ur_processing_message :: jsstring

record Claim =
  claim :: jsstring
  quote_anchor :: jsstring
  page_hint :: int
  page_id :: "int option"
  status :: jsstring
  score :: int
  bboxes :: "int list list"

record AnalyzeResponse =
  answer :: jsstring
  claims :: "Claim list"
  chunks_used :: int
  document_title :: jsstring
  ar_error :: "jsstring option"

record Document =
  doc_id :: int
  doc_title :: jsstring
  doc_file :: jsstring
  doc_file_url :: jsstring
  doc_uploaded_at :: jsstring

record File =
  name :: jsstring
  content :: "8 word list"

datatype form_value = FileValue File | TextValue jsstring

text \<open>
  A request body: a \<open>FormData\<close> with its entries in order, or the text
  \<open>JSON.stringify\<close> makes of a value, kept as that value.
\<close>

datatype request_body = FormData "(jsstring \<times> form_value) list" | JsonText json

record request =
  url :: jsstring
  method' :: jsstring
  headers :: "(jsstring \<times> jsstring) list"
  body :: "request_body option"

text \<open>
  What the network answers to one \<open>fetch\<close>: the promise rejects, or it resolves
  to a response whose \<open>ok\<close> is false or true. In both cases \<open>response.json()\<close>
  either rejects (the body is not JSON) or resolves; the body of a success has the
  type the source declares for it, the body of a failure is any JSON.
\<close>

datatype 'a reply =
    NetworkError thrown
  | NotOk "thrown + json"
  | Ok "thrown + 'a"

definition uploadDocument ::
  "(request \<Rightarrow> UploadResponse reply) \<Rightarrow> File \<Rightarrow> jsstring option
     \<Rightarrow> request list \<times> (thrown + UploadResponse)" where
  "uploadDocument fetch f title =
     (let formData = [(lit ''file'', FileValue f)];
          formData = (case title of
                        Some t \<Rightarrow> if t \<noteq> [] then formData @ [(lit ''title'', TextValue t)]
                                  else formData
                      | None \<Rightarrow> formData);
          req = \<lparr>url = API_BASE_URL @ lit ''/documents/'', method' = lit ''POST'',
                 headers = [], body = Some (FormData formData)\<rparr>
      in ([req],
          case fetch req of
            NetworkError e \<Rightarrow> Inl e
          | NotOk parsed \<Rightarrow>
              (case parsed of
                 Inl e \<Rightarrow> Inl e
               | Inr err \<Rightarrow>
                   (case errorField err of
                      Inl e \<Rightarrow> Inl e
                    | Inr v \<Rightarrow> Inl (Error (toString (logicalOr v (JStr (lit ''Upload failed'')))))))
          | Ok parsed \<Rightarrow> parsed))"

definition getDocuments ::
  "(request \<Rightarrow> Document list reply) \<Rightarrow> request list \<times> (thrown + Document list)" where
  "getDocuments fetch =
     (let req = \<lparr>url = API_BASE_URL @ lit ''/documents/'', method' = lit ''GET'',
                 headers = [], body = None\<rparr>
      in ([req],
          case fetch req of
            NetworkError e \<Rightarrow> Inl e
          | NotOk parsed \<Rightarrow> Inl (Error (lit ''Failed to fetch documents''))
          | Ok parsed \<Rightarrow> parsed))"

definition analyzeDocument ::
  "(request \<Rightarrow> AnalyzeResponse reply) \<Rightarrow> int \<Rightarrow> jsstring
     \<Rightarrow> request list \<times> (thrown + AnalyzeResponse)" where
  "analyzeDocument fetch docId question =
     (let req = \<lparr>url = API_BASE_URL @ lit ''/analyze/'', method' = lit ''POST'',
                 headers = [(lit ''Content-Type'', lit ''application/json'')],
                 body = Some (JsonText (JObj [(lit ''doc_id'', JNum docId),
                                              (lit ''question'', JStr question)]))\<rparr>
      in ([req],
          case fetch req of
            NetworkError e \<Rightarrow> Inl e
          | NotOk parsed \<Rightarrow>
              (case parsed of
                 Inl e \<Rightarrow> Inl e
               | Inr err \<Rightarrow>
                   (case errorField err of
                      Inl e \<Rightarrow> Inl e
                    | Inr v \<Rightarrow> Inl (Error (toString (logicalOr v (JStr (lit ''Analysis failed'')))))))
          | Ok parsed \<Rightarrow> parsed))"

section \<open>App.tsx\<close>

definition BACKEND_URL :: jsstring where
  "BACKEND_URL = lit ''http://127.0.0.1:8000''"

text \<open>
  The state of the component: one field for each \<open>useState\<close>, in the order of the
  source. \<open>fileInput\<close> is the value of the element behind \<open>fileInputRef\<close>
  (\<open>None\<close> while \<open>fileInputRef.current\<close> is null), and \<open>timers\<close> holds the delays of
  the pending \<open>setTimeout\<close> callbacks, which all hide the upload banner.
\<close>

record app =
  activeDocId :: "int option"
  currentFileUrl :: "jsstring option"
  documentTitle :: jsstring
  question :: jsstring
  result :: "AnalyzeResponse option"
  highlights :: "Claim list"
  error :: "jsstring option"
  isUploading :: bool
  isAnalyzing :: bool
  uploadSuccess :: bool
  uploadMessage :: "jsstring option"
  fileInput :: "jsstring option"
  timers :: "nat list"

text \<open>The state of the first render, with the file input mounted and empty.\<close>

definition initialApp :: app where
  "initialApp =
     \<lparr>activeDocId = None, currentFileUrl = None, documentTitle = [], question = [],
      result = None, highlights = [], error = None, isUploading = False,
      isAnalyzing = False, uploadSuccess = False, uploadMessage = None,
      fileInput = Some [], timers = []\<rparr>"

text \<open>
  An async handler runs up to its \<open>await\<close> and is resumed with what the awaited call
  gave. \<open>Return\<close> is a handler that returned before any call; \<open>Await\<close> carries the
  state at the call and the arguments of the call.
\<close>

datatype 'a phase = Return app | Await app 'a

text \<open>\<open>err instanceof Error ? err.message : fallback\<close>\<close>

definition messageOr :: "thrown \<Rightarrow> jsstring \<Rightarrow> jsstring" where
  "messageOr err fallback = (case err of Error m \<Rightarrow> m | NotAnError \<Rightarrow> fallback)"

subsection \<open>handleUpload\<close>

text \<open>Lines 29 to 41: the selected file, the PDF guard, the resets before the call.\<close>

definition handleUpload_start :: "File option \<Rightarrow> app \<Rightarrow> File phase" where
  "handleUpload_start selected s =
     (case selected of
        None \<Rightarrow> Return s
      | Some f \<Rightarrow>
          if \<not> endsWith (toLowerCase (name f)) (lit ''.pdf'')
          then Return (s\<lparr>error := Some (lit ''Please select a PDF file'')\<rparr>)
          else Await (s\<lparr>isUploading := True, error := None, uploadSuccess := False,
                         uploadMessage := None\<rparr>) f)"

text \<open>Lines 43 to 74: the \<open>try\<close> after the call, the \<open>catch\<close> and the \<open>finally\<close>.\<close>

definition handleUpload_resume :: "thrown + UploadResponse \<Rightarrow> app \<Rightarrow> app" where
  "handleUpload_resume outcome s =
     (let s' = (case outcome of
                  Inr response \<Rightarrow>
                    s\<lparr>activeDocId := Some (ur_id response),
                      currentFileUrl := Some (BACKEND_URL @ ur_file_url response),
                      documentTitle := ur_title response,
                      result := None,
                      highlights := [],
                      question := [],
                      uploadSuccess := True,
                      uploadMessage := Some (ur_processing_message response),
                      timers := timers s @ [5000]\<rparr>
                | Inl err \<Rightarrow> s\<lparr>error := Some (messageOr err (lit ''Upload failed''))\<rparr>)
      in s'\<lparr>isUploading := False,
            fileInput := (case fileInput s' of None \<Rightarrow> None | Some v \<Rightarrow> Some [])\<rparr>)"

text \<open>
  The handler run from the change event to its end, with the requests it sent.
\<close>

definition handleUpload ::
  "(request \<Rightarrow> UploadResponse reply) \<Rightarrow> File option \<Rightarrow> app \<Rightarrow> app \<times> request list" where
  "handleUpload fetch selected s =
     (case handleUpload_start selected s of
        Return s' \<Rightarrow> (s', [])
      | Await s1 f \<Rightarrow>
          (case uploadDocument fetch f None of
             (sent, outcome) \<Rightarrow> (handleUpload_resume outcome s1, sent)))"

text \<open>The callback of the five-second timer (lines 61 to 64).\<close>

definition hideUploadBanner :: "app \<Rightarrow> app" where
  "hideUploadBanner s = s\<lparr>uploadSuccess := False, uploadMessage := None\<rparr>"

subsection \<open>handleAnalyze\<close>

text \<open>
  Lines 81 to 94: the two guards and the resets before the call. \<open>!activeDocId\<close> on a
  \<open>number | null\<close> is true on \<open>null\<close> and on \<open>0\<close>; \<open>!question.trim()\<close> is true on
  the empty string.
\<close>

definition handleAnalyze_start :: "app \<Rightarrow> (int \<times> jsstring) phase" where
  "handleAnalyze_start s =
     (case activeDocId s of
        None \<Rightarrow> Return (s\<lparr>error := Some (lit ''Please upload a document first'')\<rparr>)
      | Some docId \<Rightarrow>
          if docId = 0
          then Return (s\<lparr>error := Some (lit ''Please upload a document first'')\<rparr>)
          else if trim (question s) = []
          then Return (s\<lparr>error := Some (lit ''Please enter a question'')\<rparr>)
          else Await (s\<lparr>isAnalyzing := True, error := None, result := None,
                         highlights := []\<rparr>)
                     (docId, question s))"

text \<open>Lines 96 to 104.\<close>

definition handleAnalyze_resume :: "thrown + AnalyzeResponse \<Rightarrow> app \<Rightarrow> app" where
  "handleAnalyze_resume outcome s =
     (let s' = (case outcome of
                  Inr response \<Rightarrow> s\<lparr>result := Some response, highlights := claims response\<rparr>
                | Inl err \<Rightarrow> s\<lparr>error := Some (messageOr err (lit ''Analysis failed''))\<rparr>)
      in s'\<lparr>isAnalyzing := False\<rparr>)"

definition handleAnalyze ::
  "(request \<Rightarrow> AnalyzeResponse reply) \<Rightarrow> app \<Rightarrow> app \<times> request list" where
  "handleAnalyze fetch s =
     (case handleAnalyze_start s of
        Return s' \<Rightarrow> (s', [])
      | Await s1 args \<Rightarrow>
          (case analyzeDocument fetch (fst args) (snd args) of
             (sent, outcome) \<Rightarrow> (handleAnalyze_resume outcome s1, sent)))"

subsection \<open>Status presentation\<close>

definition getStatusColor :: "jsstring \<Rightarrow> jsstring" where
  "getStatusColor st =
     (if st = lit ''VERIFIED'' then lit ''bg-green-100 text-green-800 border-green-300''
      else if st = lit ''LIKELY'' then lit ''bg-yellow-100 text-yellow-800 border-yellow-300''
      else if st = lit ''UNVERIFIED'' then lit ''bg-red-100 text-red-800 border-red-300''
      else lit ''bg-gray-100 text-gray-800 border-gray-300'')"

text \<open>The icons are U+2713, U+26A0 and U+2717, one code unit each.\<close>

definition getStatusIcon :: "jsstring \<Rightarrow> jsstring" where
  "getStatusIcon st =
     (if st = lit ''VERIFIED'' then [0x2713]
      else if st = lit ''LIKELY'' then [0x26A0]
      else if st = lit ''UNVERIFIED'' then [0x2717]
      else lit ''?'')"

subsection \<open>Sequences of handler invocations\<close>

text \<open>
  What can change the state: the change event of the file input (with what the network
  answers to the upload), the change event of the question box (line 226,
  \<open>setQuestion(e.target.value)\<close>), a click on the analyze button (with what the network
  answers), and the banner timer firing. Each handler runs to its end before the next
  starts.
\<close>

datatype action =
    Upload "File option" "request \<Rightarrow> UploadResponse reply"
  | SetQuestion jsstring
  | Analyze "request \<Rightarrow> AnalyzeResponse reply"
  | BannerTimeout

fun isUpload :: "action \<Rightarrow> bool" where
  "isUpload (Upload selected fetch) = True"
| "isUpload a = False"

fun perform :: "action \<Rightarrow> app \<Rightarrow> app \<times> request list" where
  "perform (Upload selected fetch) s = handleUpload fetch selected s"
| "perform (SetQuestion q) s = (s\<lparr>question := q\<rparr>, [])"
| "perform (Analyze fetch) s = handleAnalyze fetch s"
| "perform BannerTimeout s = (hideUploadBanner (s\<lparr>timers := tl (timers s)\<rparr>), [])"

fun run :: "action list \<Rightarrow> app \<Rightarrow> app \<times> request list" where
  "run [] s = (s, [])"
| "run (a # as) s =
     (case perform a s of
        (s1, sent1) \<Rightarrow> (case run as s1 of (s2, sent2) \<Rightarrow> (s2, sent1 @ sent2)))"

text \<open>The \<open>doc_id\<close> a request carries in its JSON body, if it has one.\<close>

definition sent_doc_id :: "request \<Rightarrow> json option" where
  "sent_doc_id r =
     (case body r of
        Some (JsonText (JObj kvs)) \<Rightarrow> map_of kvs (lit ''doc_id'')
      | _ \<Rightarrow> None)"

section \<open>The spec's notions\<close>

text \<open>
  The spec's words, "the filename ends in \<open>.pdf\<close>, compared case-insensitively", as a
  definition of their own: the last four code units are a full stop, then \<open>p\<close> or \<open>P\<close>,
  \<open>d\<close> or \<open>D\<close>, \<open>f\<close> or \<open>F\<close>.
\<close>

definition spec_endsInPdf :: "jsstring \<Rightarrow> bool" where
  "spec_endsInPdf nm =
     (case rev nm of
        d # c # b # a # stem \<Rightarrow>
          a = 0x2E \<and> (b = 0x70 \<or> b = 0x50) \<and> (c = 0x64 \<or> c = 0x44)
          \<and> (d = 0x66 \<or> d = 0x46)
      | _ \<Rightarrow> False)"

section \<open>Example inputs\<close>

text \<open>
  Two networks: one that is down (Chrome rejects \<open>fetch\<close> with a \<open>TypeError\<close> saying
  "Failed to fetch"), and one that gives the same answer to every request.
\<close>

definition offline :: "request \<Rightarrow> 'a reply" where
  "offline req = NetworkError (Error (lit ''Failed to fetch''))"

definition answering :: "'a reply \<Rightarrow> request \<Rightarrow> 'a reply" where
  "answering r req = r"

text \<open>The upload scenario of the spec, and a file that is not a PDF.\<close>

definition notes_pdf :: File where
  "notes_pdf = \<lparr>name = lit ''notes.pdf'', content = []\<rparr>"

definition notes_txt :: File where
  "notes_txt = \<lparr>name = lit ''notes.txt'', content = []\<rparr>"

definition notes_response :: UploadResponse where
  "notes_response =
     \<lparr>ur_id = 7, ur_title = lit ''Notes'', ur_file = lit ''notes.pdf'',
      ur_file_url = lit ''/media/notes.pdf'', ur_uploaded_at = lit ''2024-01-01T00:00:00Z'',
      ur_processing_status = success, ur_processing_message = lit ''Processed 3 pages''\<rparr>"

text \<open>The analysis scenario of the spec: one verified claim with score 92, three chunks.\<close>

definition thesis_answer :: AnalyzeResponse where
  "thesis_answer =
     \<lparr>answer = lit ''X'',
      claims = [\<lparr>claim = lit ''The thesis is X'', quote_anchor = lit ''X'', page_hint = 1,
                 page_id = Some 1, status = lit ''VERIFIED'', score = 92, bboxes = []\<rparr>],
      chunks_used = 3, document_title = lit ''Notes'', ar_error = None\<rparr>"

section \<open>Properties\<close>

subsection \<open>Status presentation\<close>

text \<open>
  C6. \<open>getStatusColor\<close> and \<open>getStatusIcon\<close> are functions of the status string alone:
  \<open>VERIFIED\<close> gives the green class and the icon U+2713, \<open>LIKELY\<close> the yellow class and
  U+26A0, \<open>UNVERIFIED\<close> the red class and U+2717, and every other string the gray
  class and \<open>?\<close>.
\<close>

theorem status_presentation:
  "getStatusColor (lit ''VERIFIED'') = lit ''bg-green-100 text-green-800 border-green-300''
   \<and> getStatusIcon (lit ''VERIFIED'') = [0x2713]
   \<and> getStatusColor (lit ''LIKELY'') = lit ''bg-yellow-100 text-yellow-800 border-yellow-300''
   \<and> getStatusIcon (lit ''LIKELY'') = [0x26A0]
   \<and> getStatusColor (lit ''UNVERIFIED'') = lit ''bg-red-100 text-red-800 border-red-300''
   \<and> getStatusIcon (lit ''UNVERIFIED'') = [0x2717]
   \<and> (st \<notin> {lit ''VERIFIED'', lit ''LIKELY'', lit ''UNVERIFIED''} \<longrightarrow>
        getStatusColor st = lit ''bg-gray-100 text-gray-800 border-gray-300''
        \<and> getStatusIcon st = lit ''?'')"
  by (simp add: getStatusColor_def getStatusIcon_def lit_def)

theorem status_presentation_witness:
  "lit ''verified'' \<notin> {lit ''VERIFIED'', lit ''LIKELY'', lit ''UNVERIFIED''}
   \<and> getStatusColor (lit ''verified'') = lit ''bg-gray-100 text-gray-800 border-gray-300''
   \<and> getStatusIcon (lit ''verified'') = lit ''?''"
  using status_presentation [of "lit ''verified''"] by (simp add: lit_def)

subsection \<open>The PDF guard of the upload handler\<close>

lemma endsWith_iff: "endsWith s t \<longleftrightarrow> (\<exists>p. s = p @ t)"
proof
  assume "endsWith s t"
  then have "s = take (length s - length t) s @ t"
    by (metis append_take_drop_id endsWith_def)
  then show "\<exists>p. s = p @ t" ..
next
  assume "\<exists>p. s = p @ t"
  then show "endsWith s t" by (auto simp: endsWith_def)
qed

lemma toLowerCaseUnit_eq:
  "toLowerCaseUnit a = 0x2E \<longleftrightarrow> a = 0x2E"
  "toLowerCaseUnit b = 0x70 \<longleftrightarrow> (b = 0x70 \<or> b = 0x50)"
  "toLowerCaseUnit c = 0x64 \<longleftrightarrow> (c = 0x64 \<or> c = 0x44)"
  "toLowerCaseUnit d = 0x66 \<longleftrightarrow> (d = 0x66 \<or> d = 0x46)"
  unfolding toLowerCaseUnit_def
  by (auto simp: eq_diff_eq [symmetric])

lemma dot_pdf: "lit ''.pdf'' = [0x2E, 0x70, 0x64, 0x66]"
  by (simp add: lit_def)

text \<open>The test of line 33 is that property of the name.\<close>

lemma pdf_guard_iff: "endsWith (toLowerCase nm) (lit ''.pdf'') \<longleftrightarrow> spec_endsInPdf nm"
proof -
  have "endsWith (toLowerCase nm) (lit ''.pdf'') \<longleftrightarrow>
        (\<exists>stem a b c d. nm = stem @ [a, b, c, d]
            \<and> toLowerCaseUnit a = 0x2E \<and> toLowerCaseUnit b = 0x70
            \<and> toLowerCaseUnit c = 0x64 \<and> toLowerCaseUnit d = 0x66)"
    (is "?L \<longleftrightarrow> ?R")
  proof
    assume ?L
    then show ?R
      unfolding endsWith_iff dot_pdf toLowerCase_def
      by (auto simp: map_eq_append_conv map_eq_Cons_conv)
  next
    assume ?R
    then obtain stem a b c d where "nm = stem @ [a, b, c, d]"
      and "toLowerCaseUnit a = 0x2E" "toLowerCaseUnit b = 0x70"
      and "toLowerCaseUnit c = 0x64" "toLowerCaseUnit d = 0x66"
      by blast
    then have "toLowerCase nm = map toLowerCaseUnit stem @ lit ''.pdf''"
      by (simp add: toLowerCase_def dot_pdf)
    then show ?L
      unfolding endsWith_iff by blast
  qed
  also have "\<dots> \<longleftrightarrow> spec_endsInPdf nm"
    unfolding spec_endsInPdf_def toLowerCaseUnit_eq
    by (auto split: list.splits)
  finally show ?thesis .
qed

text \<open>
  C1. For a selected file whose name does not end in \<open>.pdf\<close> (compared
  case-insensitively), the upload handler returns before its \<open>await\<close>: the error is
  "Please select a PDF file", nothing else of the state changes, and no request is sent.
\<close>

theorem non_pdf_rejected_locally:
  assumes "\<not> spec_endsInPdf (name f)"
  shows "handleUpload_start (Some f) s
           = Return (s\<lparr>error := Some (lit ''Please select a PDF file'')\<rparr>)
         \<and> handleUpload fetch (Some f) s
           = (s\<lparr>error := Some (lit ''Please select a PDF file'')\<rparr>, [])"
  using assms by (simp add: handleUpload_def handleUpload_start_def pdf_guard_iff)

lemma notes_pdf_name: "spec_endsInPdf (name notes_pdf)"
  by (simp add: notes_pdf_def spec_endsInPdf_def lit_def)

lemma notes_txt_name: "\<not> spec_endsInPdf (name notes_txt)"
  by (simp add: notes_txt_def spec_endsInPdf_def lit_def)

theorem non_pdf_rejected_locally_witness:
  "\<not> spec_endsInPdf (name notes_txt)
   \<and> handleUpload offline (Some notes_txt) initialApp
      = (initialApp\<lparr>error := Some (lit ''Please select a PDF file'')\<rparr>, [])"
  using non_pdf_rejected_locally [OF notes_txt_name, of initialApp offline]
  by (simp add: notes_txt_name)

subsection \<open>The upload handler past its guard\<close>

lemma handleUpload_pdf:
  assumes "spec_endsInPdf (name f)"
  shows "handleUpload fetch (Some f) s =
           (handleUpload_resume (snd (uploadDocument fetch f None))
              (s\<lparr>isUploading := True, error := None, uploadSuccess := False,
                 uploadMessage := None\<rparr>),
            fst (uploadDocument fetch f None))"
  using assms
  by (simp add: handleUpload_def handleUpload_start_def pdf_guard_iff split: prod.splits)

lemma upload_answering [simp]: "snd (uploadDocument (answering (Ok r)) f t) = r"
  by (simp add: uploadDocument_def answering_def Let_def)

lemma upload_offline [simp]:
  "snd (uploadDocument offline f t) = Inl (Error (lit ''Failed to fetch''))"
  by (simp add: uploadDocument_def offline_def Let_def)

text \<open>
  C3. When the upload operation returns a response, the handler ends with the active
  document id and the title of the response, with the preview URL
  \<open>http://127.0.0.1:8000\<close> followed by the \<open>file_url\<close> of the response, and with the
  result, the highlights and the question cleared.
\<close>

theorem upload_success_state:
  assumes "spec_endsInPdf (name f)"
    and "snd (uploadDocument fetch f None) = Inr response"
    and "handleUpload fetch (Some f) s = (s', sent)"
  shows "activeDocId s' = Some (ur_id response)
         \<and> documentTitle s' = ur_title response
         \<and> currentFileUrl s' = Some (lit ''http://127.0.0.1:8000'' @ ur_file_url response)
         \<and> result s' = None \<and> highlights s' = [] \<and> question s' = []"
  using assms(2,3) unfolding handleUpload_pdf [OF assms(1)]
  by (auto simp: handleUpload_resume_def BACKEND_URL_def)

theorem upload_success_state_witness:
  "spec_endsInPdf (name notes_pdf)
   \<and> snd (uploadDocument (answering (Ok (Inr notes_response))) notes_pdf None)
       = Inr notes_response
   \<and> activeDocId (fst (handleUpload (answering (Ok (Inr notes_response))) (Some notes_pdf)
         (initialApp\<lparr>question := lit ''What is the thesis?''\<rparr>))) = Some 7
   \<and> currentFileUrl (fst (handleUpload (answering (Ok (Inr notes_response))) (Some notes_pdf)
         (initialApp\<lparr>question := lit ''What is the thesis?''\<rparr>)))
       = Some (lit ''http://127.0.0.1:8000/media/notes.pdf'')
   \<and> question (fst (handleUpload (answering (Ok (Inr notes_response))) (Some notes_pdf)
         (initialApp\<lparr>question := lit ''What is the thesis?''\<rparr>))) = []"
  using upload_success_state [OF notes_pdf_name upload_answering surjective_pairing,
          of notes_response "initialApp\<lparr>question := lit ''What is the thesis?''\<rparr>"]
  by (simp add: notes_pdf_name notes_response_def lit_def)

text \<open>
  C4, as stated: when the upload operation throws, the handler sets only the error
  message. It does not hold: lines 40 and 41 have already cleared the success banner of
  an earlier upload when the operation throws. Here a first upload succeeds, its banner
  is showing, and a second upload on a network that is down hides it, while the active
  document id stays \<open>7\<close>.
\<close>

theorem failed_upload_sets_more_counterexample:
  "uploadSuccess (fst (handleUpload (answering (Ok (Inr notes_response))) (Some notes_pdf)
      initialApp))
   \<and> snd (uploadDocument offline notes_pdf None) = Inl (Error (lit ''Failed to fetch''))
   \<and> \<not> uploadSuccess (fst (handleUpload offline (Some notes_pdf)
           (fst (handleUpload (answering (Ok (Inr notes_response))) (Some notes_pdf)
              initialApp))))
   \<and> activeDocId (fst (handleUpload offline (Some notes_pdf)
           (fst (handleUpload (answering (Ok (Inr notes_response))) (Some notes_pdf)
              initialApp))))
      = Some 7"
  by (simp add: notes_pdf_name handleUpload_pdf handleUpload_resume_def notes_response_def)

text \<open>
  C4, amended: when the upload operation throws, the handler sets the error message
  (the message of the thrown error, or "Upload failed" for a value that is not an
  \<open>Error\<close>), clears the success banner and its message, the uploading flag and the file
  input, and sets nothing else: the active document id, the document title and the
  preview URL keep the values they had before the attempt.
\<close>

theorem upload_failure_frame:
  assumes "spec_endsInPdf (name f)"
    and "snd (uploadDocument fetch f None) = Inl err"
    and "handleUpload fetch (Some f) s = (s', sent)"
  shows "s' = s\<lparr>error := Some (messageOr err (lit ''Upload failed'')),
                 isUploading := False, uploadSuccess := False, uploadMessage := None,
                 fileInput := (case fileInput s of None \<Rightarrow> None | Some v \<Rightarrow> Some [])\<rparr>
         \<and> activeDocId s' = activeDocId s
         \<and> documentTitle s' = documentTitle s
         \<and> currentFileUrl s' = currentFileUrl s"
  using assms(2,3) unfolding handleUpload_pdf [OF assms(1)]
  by (auto simp: handleUpload_resume_def)

theorem upload_failure_frame_witness:
  "spec_endsInPdf (name notes_pdf)
   \<and> snd (uploadDocument offline notes_pdf None) = Inl (Error (lit ''Failed to fetch''))
   \<and> fst (handleUpload offline (Some notes_pdf)
           (fst (handleUpload (answering (Ok (Inr notes_response))) (Some notes_pdf)
              initialApp)))
      = (fst (handleUpload (answering (Ok (Inr notes_response))) (Some notes_pdf) initialApp))
          \<lparr>error := Some (lit ''Failed to fetch''), uploadSuccess := False,
           uploadMessage := None\<rparr>
   \<and> activeDocId (fst (handleUpload offline (Some notes_pdf)
           (fst (handleUpload (answering (Ok (Inr notes_response))) (Some notes_pdf)
              initialApp))))
      = Some 7"
  using upload_failure_frame [OF notes_pdf_name upload_offline surjective_pairing,
          of "fst (handleUpload (answering (Ok (Inr notes_response))) (Some notes_pdf)
                initialApp)"]
  by (simp add: notes_pdf_name handleUpload_pdf handleUpload_resume_def initialApp_def
        notes_response_def messageOr_def)

text \<open>
  C9, as stated: the file input is reset after every upload attempt, also one that the
  PDF guard rejects. It does not hold: the guard returns at line 35, before the \<open>try\<close>
  whose \<open>finally\<close> resets the input, and the rejected file stays selected.
\<close>

theorem rejected_file_stays_selected_counterexample:
  "\<not> spec_endsInPdf (name notes_txt)
   \<and> fileInput (fst (handleUpload offline (Some notes_txt)
        (initialApp\<lparr>fileInput := Some (lit ''notes.txt'')\<rparr>))) = Some (lit ''notes.txt'')
   \<and> lit ''notes.txt'' \<noteq> []"
proof -
  have "lit ''notes.txt'' \<noteq> []"
    by (simp add: lit_def)
  then show ?thesis
    by (simp add: notes_txt_name handleUpload_def handleUpload_start_def pdf_guard_iff)
qed

text \<open>
  C9, amended: after every upload attempt that passes the PDF guard, whether the upload
  operation returns or throws, the value of the file input (when the element is
  mounted) is the empty string.
\<close>

theorem file_input_reset:
  assumes "spec_endsInPdf (name f)"
    and "handleUpload fetch (Some f) s = (s', sent)"
  shows "fileInput s' = (case fileInput s of None \<Rightarrow> None | Some v \<Rightarrow> Some [])"
  using assms(2) unfolding handleUpload_pdf [OF assms(1)]
  by (auto simp: handleUpload_resume_def Let_def split: sum.splits)

theorem file_input_reset_witness:
  "spec_endsInPdf (name notes_pdf)
   \<and> fileInput (fst (handleUpload offline (Some notes_pdf)
        (initialApp\<lparr>fileInput := Some (lit ''notes.pdf'')\<rparr>))) = Some []
   \<and> fileInput (fst (handleUpload (answering (Ok (Inr notes_response))) (Some notes_pdf)
        (initialApp\<lparr>fileInput := Some (lit ''notes.pdf'')\<rparr>))) = Some []"
  using file_input_reset [OF notes_pdf_name surjective_pairing,
          of offline "initialApp\<lparr>fileInput := Some (lit ''notes.pdf'')\<rparr>"]
        file_input_reset [OF notes_pdf_name surjective_pairing,
          of "answering (Ok (Inr notes_response))"
             "initialApp\<lparr>fileInput := Some (lit ''notes.pdf'')\<rparr>"]
  by (simp add: notes_pdf_name)

subsection \<open>The analyze handler\<close>

text \<open>The question is empty after trimming exactly when it is all white space.\<close>

lemma trim_empty_iff: "trim q = [] \<longleftrightarrow> (\<forall>c \<in> set q. isWhiteSpace c)"
proof
  assume "trim q = []"
  then have all: "\<forall>x \<in> set (dropWhile isWhiteSpace q). isWhiteSpace x"
    by (simp add: trim_def)
  have "dropWhile isWhiteSpace q = []"
  proof (rule ccontr)
    assume ne: "dropWhile isWhiteSpace q \<noteq> []"
    then have "\<not> isWhiteSpace (hd (dropWhile isWhiteSpace q))"
      by (rule hd_dropWhile)
    moreover have "hd (dropWhile isWhiteSpace q) \<in> set (dropWhile isWhiteSpace q)"
      using ne by simp
    ultimately show False using all by blast
  qed
  then show "\<forall>c \<in> set q. isWhiteSpace c"
    by simp
next
  assume "\<forall>c \<in> set q. isWhiteSpace c"
  then show "trim q = []"
    by (auto simp: trim_def dest: set_dropWhileD)
qed

lemma analyze_sent: "fst (analyzeDocument fetch d q) =
  [\<lparr>url = lit ''/api/analyze/'', method' = lit ''POST'',
    headers = [(lit ''Content-Type'', lit ''application/json'')],
    body = Some (JsonText (JObj [(lit ''doc_id'', JNum d), (lit ''question'', JStr q)]))\<rparr>]"
  by (simp add: analyzeDocument_def Let_def API_BASE_URL_def lit_def)

lemma handleAnalyze_passed:
  assumes "activeDocId s = Some d" "d \<noteq> 0" "trim (question s) \<noteq> []"
  shows "handleAnalyze fetch s =
           (handleAnalyze_resume (snd (analyzeDocument fetch d (question s)))
              (s\<lparr>isAnalyzing := True, error := None, result := None, highlights := []\<rparr>),
            fst (analyzeDocument fetch d (question s)))"
  using assms by (simp add: handleAnalyze_def handleAnalyze_start_def split: prod.splits)

lemma trim_thesis: "trim (lit ''What is the thesis?'') \<noteq> []"
  by (simp add: trim_def lit_def isWhiteSpace_def)

lemma trim_blank: "trim (lit ''   '') = []"
  by (simp add: trim_def lit_def isWhiteSpace_def)

text \<open>
  C2, as stated: with no active document id the error is "Please upload a document
  first"; otherwise, with a blank question, it is "Please enter a question". It does not
  hold when the active document id is \<open>0\<close>: the id is set, the question is blank, and
  the error is "Please upload a document first". The state is the one an upload
  answered with \<open>id = 0\<close> leaves.
\<close>

theorem zero_id_question_blank_counterexample:
  "activeDocId (fst (handleUpload (answering (Ok (Inr (notes_response\<lparr>ur_id := 0\<rparr>))))
      (Some notes_pdf) initialApp)) = Some 0
   \<and> trim (question (fst (handleUpload (answering (Ok (Inr (notes_response\<lparr>ur_id := 0\<rparr>))))
      (Some notes_pdf) initialApp))) = []
   \<and> error (fst (handleAnalyze offline
        (fst (handleUpload (answering (Ok (Inr (notes_response\<lparr>ur_id := 0\<rparr>))))
           (Some notes_pdf) initialApp))))
      = Some (lit ''Please upload a document first'')
   \<and> lit ''Please upload a document first'' \<noteq> lit ''Please enter a question''"
proof -
  have "lit ''Please upload a document first'' \<noteq> lit ''Please enter a question''"
    by (simp add: lit_def)
  then show ?thesis
    by (simp add: notes_pdf_name handleUpload_pdf handleUpload_resume_def trim_def
          handleAnalyze_def handleAnalyze_start_def)
qed

text \<open>
  C2, amended: if the active document id is null or \<open>0\<close>, the analyze handler sets
  the error "Please upload a document first" and returns without a request; otherwise,
  if the question is empty after trimming, it sets "Please enter a question" and returns
  without a request; a request is sent only when the id is neither null nor \<open>0\<close> and
  the trimmed question is not empty.
\<close>

theorem analyze_guards:
  "(activeDocId s = None \<or> activeDocId s = Some 0 \<longrightarrow>
      handleAnalyze fetch s = (s\<lparr>error := Some (lit ''Please upload a document first'')\<rparr>, []))
   \<and> (activeDocId s \<noteq> None \<and> activeDocId s \<noteq> Some 0 \<and> trim (question s) = [] \<longrightarrow>
      handleAnalyze fetch s = (s\<lparr>error := Some (lit ''Please enter a question'')\<rparr>, []))
   \<and> (snd (handleAnalyze fetch s) \<noteq> [] \<longrightarrow>
      activeDocId s \<noteq> None \<and> activeDocId s \<noteq> Some 0 \<and> trim (question s) \<noteq> [])"
  by (auto simp: handleAnalyze_def handleAnalyze_start_def split: option.splits prod.splits)

theorem analyze_guards_witness:
  "activeDocId initialApp = None
   \<and> handleAnalyze offline initialApp
      = (initialApp\<lparr>error := Some (lit ''Please upload a document first'')\<rparr>, [])
   \<and> trim (question (initialApp\<lparr>activeDocId := Some 7, question := lit ''   ''\<rparr>)) = []
   \<and> handleAnalyze offline (initialApp\<lparr>activeDocId := Some 7, question := lit ''   ''\<rparr>)
      = (initialApp\<lparr>activeDocId := Some 7, question := lit ''   '',
                    error := Some (lit ''Please enter a question'')\<rparr>, [])
   \<and> snd (handleAnalyze offline
        (initialApp\<lparr>activeDocId := Some 7, question := lit ''What is the thesis?''\<rparr>)) \<noteq> []
   \<and> trim (question (initialApp\<lparr>activeDocId := Some 7, question := lit ''What is the thesis?''\<rparr>))
      \<noteq> []"
  using analyze_guards [of initialApp offline]
        analyze_guards [of "initialApp\<lparr>activeDocId := Some 7, question := lit ''   ''\<rparr>" offline]
        analyze_guards [of "initialApp\<lparr>activeDocId := Some 7, question := lit ''What is the thesis?''\<rparr>" offline]
  by (simp add: initialApp_def trim_blank trim_thesis handleAnalyze_passed analyze_sent)

text \<open>
  C5. An analyze attempt that passes both guards reaches its \<open>await\<close> with the result,
  the highlights and the error cleared; if the analyze operation then throws, the
  handler ends with the error set and the result and the highlights still cleared.
\<close>

theorem analyze_clears_before_request:
  assumes "activeDocId s = Some d" and "d \<noteq> 0" and "trim (question s) \<noteq> []"
  shows "handleAnalyze_start s
           = Await (s\<lparr>isAnalyzing := True, error := None, result := None, highlights := []\<rparr>)
                   (d, question s)
         \<and> (snd (analyzeDocument fetch d (question s)) = Inl err \<longrightarrow>
              fst (handleAnalyze fetch s)
                = s\<lparr>error := Some (messageOr err (lit ''Analysis failed'')),
                     result := None, highlights := [], isAnalyzing := False\<rparr>)"
  using assms
  by (auto simp: handleAnalyze_passed handleAnalyze_resume_def handleAnalyze_start_def)

theorem analyze_clears_before_request_witness:
  "activeDocId (initialApp\<lparr>activeDocId := Some 7, question := lit ''What is the thesis?'',
                 result := Some thesis_answer, highlights := claims thesis_answer,
                 error := Some (lit ''Please enter a question'')\<rparr>) = Some 7
   \<and> trim (lit ''What is the thesis?'') \<noteq> []
   \<and> snd (analyzeDocument offline 7 (lit ''What is the thesis?''))
      = Inl (Error (lit ''Failed to fetch''))
   \<and> fst (handleAnalyze offline
        (initialApp\<lparr>activeDocId := Some 7, question := lit ''What is the thesis?'',
                    result := Some thesis_answer, highlights := claims thesis_answer,
                    error := Some (lit ''Please enter a question'')\<rparr>))
      = initialApp\<lparr>activeDocId := Some 7, question := lit ''What is the thesis?'',
                    error := Some (lit ''Failed to fetch'')\<rparr>"
  using analyze_clears_before_request
          [of "initialApp\<lparr>activeDocId := Some 7, question := lit ''What is the thesis?'',
                 result := Some thesis_answer, highlights := claims thesis_answer,
                 error := Some (lit ''Please enter a question'')\<rparr>" 7 offline
              "Error (lit ''Failed to fetch'')"]
  by (simp add: trim_thesis analyzeDocument_def offline_def Let_def messageOr_def initialApp_def)

subsection \<open>From an upload to the analyses that follow\<close>

lemma handleAnalyze_activeDocId:
  "activeDocId (fst (handleAnalyze fetch s)) = activeDocId s"
  by (auto simp: handleAnalyze_def handleAnalyze_start_def handleAnalyze_resume_def Let_def
      split: option.splits prod.splits sum.splits)

lemma handleAnalyze_doc_id:
  assumes "activeDocId s = Some d" "r \<in> set (snd (handleAnalyze fetch s))"
  shows "sent_doc_id r = Some (JNum d)"
  using assms
  by (auto simp: handleAnalyze_def handleAnalyze_start_def analyzeDocument_def Let_def
        sent_doc_id_def split: if_splits prod.splits)

lemma perform_activeDocId:
  assumes "\<not> isUpload a"
  shows "activeDocId (fst (perform a s)) = activeDocId s"
  using assms by (cases a) (simp_all add: handleAnalyze_activeDocId hideUploadBanner_def)

lemma perform_doc_id:
  assumes "\<not> isUpload a" "activeDocId s = Some d" "r \<in> set (snd (perform a s))"
  shows "sent_doc_id r = Some (JNum d)"
  using assms by (cases a) (simp_all add: handleAnalyze_doc_id)

lemma run_doc_id:
  assumes "\<forall>a \<in> set acts. \<not> isUpload a" "activeDocId s = Some d"
  shows "activeDocId (fst (run acts s)) = Some d
         \<and> (\<forall>r \<in> set (snd (run acts s)). sent_doc_id r = Some (JNum d))"
  using assms
proof (induction acts arbitrary: s)
  case Nil
  then show ?case by simp
next
  case (Cons a acts)
  obtain s1 sent1 where p: "perform a s = (s1, sent1)"
    by (cases "perform a s")
  have nu: "\<not> isUpload a" using Cons.prems(1) by simp
  have "activeDocId s1 = Some d"
    using perform_activeDocId [OF nu, of s] p Cons.prems(2) by simp
  then have ih: "activeDocId (fst (run acts s1)) = Some d
         \<and> (\<forall>r \<in> set (snd (run acts s1)). sent_doc_id r = Some (JNum d))"
    using Cons.IH [of s1] Cons.prems(1) by simp
  have "\<forall>r \<in> set sent1. sent_doc_id r = Some (JNum d)"
    using perform_doc_id [OF nu Cons.prems(2)] p by simp
  with ih p show ?case
    by (auto split: prod.splits)
qed

lemma run_zero_id:
  assumes "\<forall>a \<in> set acts. \<not> isUpload a" "activeDocId s = Some 0"
  shows "snd (run acts s) = []"
  using assms
proof (induction acts arbitrary: s)
  case Nil
  then show ?case by simp
next
  case (Cons a acts)
  obtain s1 sent1 where p: "perform a s = (s1, sent1)"
    by (cases "perform a s")
  have nu: "\<not> isUpload a" using Cons.prems(1) by simp
  have none_sent: "sent1 = []"
    using nu Cons.prems(2) p
    by (cases a) (auto simp: handleAnalyze_def handleAnalyze_start_def)
  have "activeDocId s1 = Some 0"
    using perform_activeDocId [OF nu, of s] p Cons.prems(2) by simp
  then have "snd (run acts s1) = []"
    using Cons.IH Cons.prems(1) by simp
  with none_sent p show ?case
    by (auto split: prod.splits)
qed

text \<open>
  C8. After an upload that returned a response, and until the next upload, every request
  the analyze handler sends carries that response's \<open>id\<close> as its \<open>doc_id\<close>, whatever
  questions are typed, analyses run or timers fire in between.
\<close>

theorem analyze_sends_uploaded_id:
  assumes "spec_endsInPdf (name f)"
    and "snd (uploadDocument fetch f None) = Inr response"
    and "handleUpload fetch (Some f) s = (s1, sent1)"
    and "\<forall>a \<in> set acts. \<not> isUpload a"
    and "run acts s1 = (s2, sent2)"
  shows "\<forall>r \<in> set sent2. sent_doc_id r = Some (JNum (ur_id response))"
proof -
  have "activeDocId s1 = Some (ur_id response)"
    using assms(2,3) unfolding handleUpload_pdf [OF assms(1)]
    by (auto simp: handleUpload_resume_def)
  from run_doc_id [OF assms(4) this] assms(5) show ?thesis
    by simp
qed

theorem analyze_sends_uploaded_id_witness:
  "spec_endsInPdf (name notes_pdf)
   \<and> snd (uploadDocument (answering (Ok (Inr notes_response))) notes_pdf None)
       = Inr notes_response
   \<and> \<not> isUpload (SetQuestion (lit ''What is the thesis?''))
   \<and> \<not> isUpload (Analyze (answering (Ok (Inr thesis_answer))))
   \<and> map sent_doc_id (snd (run [SetQuestion (lit ''What is the thesis?''),
                                Analyze (answering (Ok (Inr thesis_answer)))]
        (fst (handleUpload (answering (Ok (Inr notes_response))) (Some notes_pdf) initialApp))))
      = [Some (JNum 7)]
   \<and> result (fst (run [SetQuestion (lit ''What is the thesis?''),
                       Analyze (answering (Ok (Inr thesis_answer)))]
        (fst (handleUpload (answering (Ok (Inr notes_response))) (Some notes_pdf) initialApp))))
      = Some thesis_answer"
  using analyze_sends_uploaded_id [OF notes_pdf_name upload_answering surjective_pairing _
          surjective_pairing,
          of "[SetQuestion (lit ''What is the thesis?''),
               Analyze (answering (Ok (Inr thesis_answer)))]" notes_response initialApp]
  by (simp add: notes_pdf_name handleUpload_pdf handleUpload_resume_def notes_response_def
        handleAnalyze_passed trim_thesis analyzeDocument_def answering_def Let_def
        handleAnalyze_resume_def sent_doc_id_def)

text \<open>
  C10. After an upload whose response has \<open>id = 0\<close> the active document id is \<open>0\<close>,
  and until the next upload every invocation of the analyze handler is rejected with
  "Please upload a document first" and sends no request.
\<close>

theorem zero_id_blocks_analysis:
  assumes "spec_endsInPdf (name f)"
    and "snd (uploadDocument fetch f None) = Inr response"
    and "ur_id response = 0"
    and "handleUpload fetch (Some f) s = (s1, sent1)"
    and "\<forall>a \<in> set acts. \<not> isUpload a"
    and "run acts s1 = (s2, sent2)"
  shows "activeDocId s1 = Some 0
         \<and> sent2 = []
         \<and> handleAnalyze fetch' s2
            = (s2\<lparr>error := Some (lit ''Please upload a document first'')\<rparr>, [])"
proof -
  have s1: "activeDocId s1 = Some 0"
    using assms(2,3,4) unfolding handleUpload_pdf [OF assms(1)]
    by (auto simp: handleUpload_resume_def)
  have "activeDocId s2 = Some 0"
    using run_doc_id [OF assms(5) s1] assms(6) by simp
  moreover have "sent2 = []"
    using run_zero_id [OF assms(5) s1] assms(6) by simp
  ultimately show ?thesis
    using s1 by (simp add: handleAnalyze_def handleAnalyze_start_def)
qed

theorem zero_id_blocks_analysis_witness:
  "spec_endsInPdf (name notes_pdf)
   \<and> snd (uploadDocument (answering (Ok (Inr (notes_response\<lparr>ur_id := 0\<rparr>)))) notes_pdf None)
       = Inr (notes_response\<lparr>ur_id := 0\<rparr>)
   \<and> ur_id (notes_response\<lparr>ur_id := 0\<rparr>) = 0
   \<and> \<not> isUpload (SetQuestion (lit ''What is the thesis?''))
   \<and> \<not> isUpload (Analyze (answering (Ok (Inr thesis_answer))))
   \<and> snd (run [SetQuestion (lit ''What is the thesis?''),
               Analyze (answering (Ok (Inr thesis_answer)))]
        (fst (handleUpload (answering (Ok (Inr (notes_response\<lparr>ur_id := 0\<rparr>))))
           (Some notes_pdf) initialApp))) = []
   \<and> error (fst (handleAnalyze (answering (Ok (Inr thesis_answer)))
        (fst (run [SetQuestion (lit ''What is the thesis?''),
                   Analyze (answering (Ok (Inr thesis_answer)))]
          (fst (handleUpload (answering (Ok (Inr (notes_response\<lparr>ur_id := 0\<rparr>))))
             (Some notes_pdf) initialApp))))))
      = Some (lit ''Please upload a document first'')"
  using zero_id_blocks_analysis [OF notes_pdf_name upload_answering _ surjective_pairing _
          surjective_pairing,
          of "notes_response\<lparr>ur_id := 0\<rparr>"
             "[SetQuestion (lit ''What is the thesis?''),
               Analyze (answering (Ok (Inr thesis_answer)))]"
             initialApp "answering (Ok (Inr thesis_answer))"]
  by (simp add: notes_pdf_name)

subsection \<open>Errors of the API client\<close>

lemma uploadDocument_reply:
  assumes "map fetch (fst (uploadDocument fetch f t)) = [r]"
  shows "snd (uploadDocument fetch f t) =
           (case r of
              NetworkError e \<Rightarrow> Inl e
            | NotOk parsed \<Rightarrow>
                (case parsed of
                   Inl e \<Rightarrow> Inl e
                 | Inr err \<Rightarrow>
                     (case errorField err of
                        Inl e \<Rightarrow> Inl e
                      | Inr v \<Rightarrow> Inl (Error (toString (logicalOr v (JStr (lit ''Upload failed'')))))))
            | Ok parsed \<Rightarrow> parsed)"
  using assms by (auto simp: uploadDocument_def Let_def)

lemma analyzeDocument_reply:
  assumes "map fetch (fst (analyzeDocument fetch d q)) = [r]"
  shows "snd (analyzeDocument fetch d q) =
           (case r of
              NetworkError e \<Rightarrow> Inl e
            | NotOk parsed \<Rightarrow>
                (case parsed of
                   Inl e \<Rightarrow> Inl e
                 | Inr err \<Rightarrow>
                     (case errorField err of
                        Inl e \<Rightarrow> Inl e
                      | Inr v \<Rightarrow> Inl (Error (toString (logicalOr v (JStr (lit ''Analysis failed'')))))))
            | Ok parsed \<Rightarrow> parsed)"
  using assms by (auto simp: analyzeDocument_def Let_def)

lemma getDocuments_reply:
  assumes "map fetch (fst (getDocuments fetch)) = [r]"
  shows "snd (getDocuments fetch) =
           (case r of
              NetworkError e \<Rightarrow> Inl e
            | NotOk parsed \<Rightarrow> Inl (Error (lit ''Failed to fetch documents''))
            | Ok parsed \<Rightarrow> parsed)"
  using assms by (auto simp: getDocuments_def Let_def)

lemma logicalOr_string: "m \<noteq> [] \<Longrightarrow> toString (logicalOr (Some (JStr m)) d) = m"
  by (simp add: logicalOr_def)

lemma logicalOr_falsy: "\<not> truthy v \<Longrightarrow> logicalOr v d = d"
  by (auto simp: logicalOr_def split: option.splits)

lemma sent_answering:
  "map (answering r) (fst (uploadDocument (answering r) f t)) = [r]"
  "map (answering r') (fst (analyzeDocument (answering r') d q)) = [r']"
  "map (answering r'') (fst (getDocuments (answering r''))) = [r'']"
  by (simp_all add: uploadDocument_def analyzeDocument_def getDocuments_def Let_def answering_def)

lemma errorField_examples:
  "errorField (JObj [(lit ''error'', e)]) = Inr (Some e)"
  "errorField (JObj []) = Inr None"
  by (simp_all add: errorField_def)

lemma message_examples:
  "lit ''No file provided'' \<noteq> []"
  "lit ''Upload failed'' \<noteq> []"
  "lit ''Unexpected token < in JSON at position 0'' \<noteq> lit ''Upload failed''"
  by (simp_all add: lit_def)

text \<open>
  C7, as stated: on a non-success response the upload operation throws the server's
  \<open>error\<close> field when it is present and "Upload failed" otherwise. It does not hold:
  an \<open>error\<close> field that is present and empty gives "Upload failed" (the \<open>||\<close> of line
  60 takes every falsy value for a missing one), and a body that is not JSON gives the
  error \<open>response.json()\<close> rejects with, not "Upload failed".
\<close>

theorem api_error_messages_counterexample:
  "errorField (JObj [(lit ''error'', JStr [])]) = Inr (Some (JStr []))
   \<and> snd (uploadDocument (answering (NotOk (Inr (JObj [(lit ''error'', JStr [])])))) notes_pdf None)
       = Inl (Error (lit ''Upload failed''))
   \<and> lit ''Upload failed'' \<noteq> []
   \<and> snd (uploadDocument
            (answering (NotOk (Inl (Error (lit ''Unexpected token < in JSON at position 0'')))))
            notes_pdf None)
       = Inl (Error (lit ''Unexpected token < in JSON at position 0''))
   \<and> lit ''Unexpected token < in JSON at position 0'' \<noteq> lit ''Upload failed''"
  by (simp add: sent_answering uploadDocument_reply errorField_examples message_examples
        logicalOr_def)

text \<open>
  C7, amended: on a non-success response whose body parses as a JSON value other than
  \<open>null\<close>, the upload operation throws an error whose message is the \<open>error\<close> field
  when that is a non-empty string, and "Upload failed" when the field is missing or
  falsy (empty string, \<open>null\<close>, \<open>false\<close>, \<open>0\<close>); the analyze operation likewise,
  with "Analysis failed"; the list operation throws "Failed to fetch documents" on
  every non-success response, whatever the body.
\<close>

theorem api_error_messages:
  "(map fetchU (fst (uploadDocument fetchU f t)) = [NotOk (Inr b)] \<longrightarrow>
      (errorField b = Inr (Some (JStr m)) \<and> m \<noteq> [] \<longrightarrow>
         snd (uploadDocument fetchU f t) = Inl (Error m))
      \<and> (errorField b = Inr v \<and> \<not> truthy v \<longrightarrow>
         snd (uploadDocument fetchU f t) = Inl (Error (lit ''Upload failed''))))
   \<and> (map fetchA (fst (analyzeDocument fetchA d q)) = [NotOk (Inr b)] \<longrightarrow>
      (errorField b = Inr (Some (JStr m)) \<and> m \<noteq> [] \<longrightarrow>
         snd (analyzeDocument fetchA d q) = Inl (Error m))
      \<and> (errorField b = Inr v \<and> \<not> truthy v \<longrightarrow>
         snd (analyzeDocument fetchA d q) = Inl (Error (lit ''Analysis failed''))))
   \<and> (map fetchD (fst (getDocuments fetchD)) = [NotOk parsed] \<longrightarrow>
      snd (getDocuments fetchD) = Inl (Error (lit ''Failed to fetch documents'')))"
  by (simp add: uploadDocument_reply analyzeDocument_reply getDocuments_reply
        logicalOr_string logicalOr_falsy)

theorem api_error_messages_witness:
  "errorField (JObj [(lit ''error'', JStr (lit ''No file provided''))])
       = Inr (Some (JStr (lit ''No file provided'')))
   \<and> lit ''No file provided'' \<noteq> []
   \<and> snd (uploadDocument
            (answering (NotOk (Inr (JObj [(lit ''error'', JStr (lit ''No file provided''))]))))
            notes_pdf None)
       = Inl (Error (lit ''No file provided''))
   \<and> errorField (JObj []) = Inr None \<and> \<not> truthy None
   \<and> snd (analyzeDocument (answering (NotOk (Inr (JObj [])))) 7 (lit ''What is the thesis?''))
       = Inl (Error (lit ''Analysis failed''))
   \<and> snd (getDocuments
            (answering (NotOk (Inr (JObj [(lit ''error'', JStr (lit ''Database down''))])))))
       = Inl (Error (lit ''Failed to fetch documents''))"
  using api_error_messages
          [where fetchU = "answering (NotOk (Inr (JObj [(lit ''error'', JStr (lit ''No file provided''))])))"
             and f = notes_pdf and t = None
             and b = "JObj [(lit ''error'', JStr (lit ''No file provided''))]"
             and m = "lit ''No file provided''"]
        api_error_messages
          [where fetchA = "answering (NotOk (Inr (JObj [])))" and d = 7
             and q = "lit ''What is the thesis?''" and b = "JObj []" and v = None]
        api_error_messages
          [where fetchD = "answering (NotOk (Inr (JObj [(lit ''error'', JStr (lit ''Database down''))])))"
             and parsed = "Inr (JObj [(lit ''error'', JStr (lit ''Database down''))])"]
  by (simp add: sent_answering errorField_examples message_examples)

end
